theory Spec2Isabelle
  imports
    Complex_Main
    "HOL-Library.Char_ord"
    "HOL-Library.List_Lexorder"
    "HOL-Library.Product_Lexorder"
    "HOL-Library.Multiset"
begin

section \<open>The ledger of app.py\<close>

text \<open>
  The program keeps one SQLite table, \<^verbatim>\<open>records\<close>, and serves one route, \<^verbatim>\<open>index\<close>,
  which either inserts a row (action \<^verbatim>\<open>add_record\<close>) or renders the statistics that
  \<^verbatim>\<open>get_stats\<close> computes under a filter.

  Conventions of the model.
  \<^item> Text is \<^typ>\<open>string\<close>; a character stands for a code point below 256. Text columns are
    compared as SQLite's BINARY collation does, which is the lexicographic order of
    \<^theory_text>\<open>List_Lexorder\<close> over the character codes of \<^theory_text>\<open>Char_ord\<close>.
  \<^item> The column \<^verbatim>\<open>amount REAL\<close> and Python's \<^verbatim>\<open>float\<close> are modelled by \<^typ>\<open>real\<close>:
    sums and differences are exact, and the non-finite values (infinities, NaN) and the
    rounding of binary floating point are outside the model.
  \<^item> Python's built-in \<^verbatim>\<open>float(s)\<close> is not code of the program; it is a parameter
    \<open>float_of\<close> of the environment, returning \<open>None\<close> where \<^verbatim>\<open>float\<close> raises ValueError.
  \<^item> The clock is a parameter too: \<open>today\<close> is what \<^verbatim>\<open>date.today()\<close> returns and \<open>now\<close>
    the text that \<^verbatim>\<open>CURRENT_TIMESTAMP\<close> yields.
  \<^item> An exception that no handler of the program catches is a value \<open>Inl e\<close>; nothing has
    been committed when one is raised, so the database is then the one before the request.
    Failures of the storage itself (a missing file, a full disk, a lock) are not modelled.
\<close>

subsection \<open>Rows and the database\<close>

text \<open>
  The columns a detail listing selects, in the order of the schema; \<^verbatim>\<open>type\<close> and
  \<^verbatim>\<open>note\<close> are written \<open>rtype\<close> and \<open>rnote\<close>. The columns \<^verbatim>\<open>amount\<close>, \<^verbatim>\<open>type\<close>,
  \<^verbatim>\<open>category\<close> and \<^verbatim>\<open>date\<close> are NOT NULL; \<^verbatim>\<open>note\<close> may be NULL.
\<close>

record detail =
  rid :: int
  amount :: real
  rtype :: string
  category :: string
  date :: string
  rnote :: "string option"

record row = detail +
  created_at :: string

text \<open>
  The table in rowid order, and the counter that AUTOINCREMENT keeps in
  \<^verbatim>\<open>sqlite_sequence\<close> (the largest rowid ever handed out).
\<close>

record store =
  rows :: "row list"
  seq :: int

datatype error = ValueError | OverflowError | IntegrityError

text \<open>
  A connection sees its own uncommitted changes; \<^verbatim>\<open>commit\<close> makes them durable and
  \<^verbatim>\<open>close\<close> drops whatever was not committed, leaving the durable database.
\<close>

record conn =
  durable :: store
  view :: store

definition get_db_connection :: "store \<Rightarrow> conn" where
  "get_db_connection db = \<lparr>durable = db, view = db\<rparr>"

definition commit :: "conn \<Rightarrow> conn" where
  "commit con = con\<lparr>durable := view con\<rparr>"

definition close :: "conn \<Rightarrow> store" where
  "close con = durable con"

subsection \<open>Text helpers\<close>

text \<open>\<^verbatim>\<open>str.isspace\<close> on the code points below 256, and \<^verbatim>\<open>str.strip()\<close>.\<close>

definition isspace :: "char \<Rightarrow> bool" where
  "isspace c =
     (let n = (of_char c :: nat)
      in (9 \<le> n \<and> n \<le> 13) \<or> (28 \<le> n \<and> n \<le> 32) \<or> n = 133 \<or> n = 160)"

definition strip :: "string \<Rightarrow> string" where
  "strip s = dropWhile isspace (rev (dropWhile isspace (rev s)))"

subsection \<open>Dates of the clock\<close>

record py_date =
  year :: nat
  month :: nat
  day :: nat

definition is_leap :: "nat \<Rightarrow> bool" where
  "is_leap y = (y mod 4 = 0 \<and> (y mod 100 \<noteq> 0 \<or> y mod 400 = 0))"

definition days_in_month :: "nat \<Rightarrow> nat \<Rightarrow> nat" where
  "days_in_month y m =
     (if m = 2 then (if is_leap y then 29 else 28)
      else if m = 4 \<or> m = 6 \<or> m = 9 \<or> m = 11 then 30
      else 31)"

text \<open>The constructor \<^verbatim>\<open>date(y, m, d)\<close>: ValueError outside the calendar (years 1 to 9999).\<close>

definition mk_date :: "nat \<Rightarrow> nat \<Rightarrow> nat \<Rightarrow> error + py_date" where
  "mk_date y m d =
     (if 1 \<le> y \<and> y \<le> 9999 \<and> 1 \<le> m \<and> m \<le> 12 \<and> 1 \<le> d \<and> d \<le> days_in_month y m
      then Inr \<lparr>year = y, month = m, day = d\<rparr>
      else Inl ValueError)"

definition replace_day :: "py_date \<Rightarrow> nat \<Rightarrow> error + py_date" where
  "replace_day t d = mk_date (year t) (month t) d"

text \<open>\<^verbatim>\<open>t - timedelta(days=1)\<close>: OverflowError before the first day of year 1.\<close>

definition minus_one_day :: "py_date \<Rightarrow> error + py_date" where
  "minus_one_day t =
     (if 1 < day t then Inr (t\<lparr>day := day t - 1\<rparr>)
      else if 1 < month t then
        Inr \<lparr>year = year t, month = month t - 1, day = days_in_month (year t) (month t - 1)\<rparr>
      else if 1 < year t then Inr \<lparr>year = year t - 1, month = 12, day = 31\<rparr>
      else Inl OverflowError)"

definition digit_char :: "nat \<Rightarrow> char" where
  "digit_char n = ''0123456789'' ! (n mod 10)"

text \<open>\<^verbatim>\<open>date.isoformat()\<close>: YYYY-MM-DD, zero padded.\<close>

definition isoformat :: "py_date \<Rightarrow> string" where
  "isoformat t =
     [digit_char (year t div 1000), digit_char (year t div 100),
      digit_char (year t div 10), digit_char (year t)] @ ''-'' @
     [digit_char (month t div 10), digit_char (month t)] @ ''-'' @
     [digit_char (day t div 10), digit_char (day t)]"

definition get_current_month_range :: "py_date \<Rightarrow> error + (py_date \<times> py_date)" where
  "get_current_month_range today =
     (case replace_day today 1 of
        Inl e \<Rightarrow> Inl e
      | Inr first_day \<Rightarrow>
          (case (if month today = 12 then mk_date (year today + 1) 1 1
                 else mk_date (year today) (month today + 1) 1) of
             Inl e \<Rightarrow> Inl e
           | Inr next_month_first \<Rightarrow>
               (case minus_one_day next_month_first of
                  Inl e \<Rightarrow> Inl e
                | Inr last_day \<Rightarrow> Inr (first_day, last_day))))"

subsection \<open>The statements get_stats issues\<close>

text \<open>
  The conditions that \<^verbatim>\<open>get_stats\<close> collects in its list \<^verbatim>\<open>conditions\<close> (with their
  parameters; the argument \<^verbatim>\<open>category\<close> is written \<open>cat\<close>), and the condition on
  \<^verbatim>\<open>type\<close> that three of the four statements put in front.
\<close>

datatype cond =
    DateBetween string string
  | CategoryEq string
  | AmountGe real
  | AmountLe real
  | TypeEq string

fun holds :: "cond \<Rightarrow> 'a detail_scheme \<Rightarrow> bool" where
  "holds (DateBetween lo hi) r = (lo \<le> date r \<and> date r \<le> hi)"
| "holds (CategoryEq c) r = (category r = c)"
| "holds (AmountGe m) r = (amount r \<ge> m)"
| "holds (AmountLe m) r = (amount r \<le> m)"
| "holds (TypeEq t) r = (rtype r = t)"

text \<open>The conditions joined by AND.\<close>

definition where_clause :: "cond list \<Rightarrow> 'a detail_scheme \<Rightarrow> bool" where
  "where_clause cs r = list_all (\<lambda>c. holds c r) cs"

definition conditions ::
  "string \<Rightarrow> string \<Rightarrow> string option \<Rightarrow> real option \<Rightarrow> real option \<Rightarrow> cond list" where
  "conditions start_date end_date cat min_amount max_amount =
     [DateBetween start_date end_date]
     @ (case cat of
          None \<Rightarrow> []
        | Some c \<Rightarrow> if c \<noteq> [] \<and> strip c \<noteq> [] then [CategoryEq (strip c)] else [])
     @ (case min_amount of None \<Rightarrow> [] | Some m \<Rightarrow> [AmountGe m])
     @ (case max_amount of None \<Rightarrow> [] | Some m \<Rightarrow> [AmountLe m])"

definition select_where :: "cond list \<Rightarrow> conn \<Rightarrow> row list" where
  "select_where cs con = filter (where_clause cs) (rows (view con))"

text \<open>SUM is NULL over no rows; COALESCE replaces the NULL.\<close>

definition sql_sum :: "real list \<Rightarrow> real option" where
  "sql_sum xs = (if xs = [] then None else Some (sum_list xs))"

definition coalesce :: "'a option \<Rightarrow> 'a \<Rightarrow> 'a" where
  "coalesce v d = (case v of None \<Rightarrow> d | Some x \<Rightarrow> x)"

text \<open>\<^verbatim>\<open>SELECT COALESCE(SUM(amount), 0) FROM records WHERE ...\<close>\<close>

definition select_total :: "cond list \<Rightarrow> conn \<Rightarrow> real" where
  "select_total cs con = coalesce (sql_sum (map amount (select_where cs con))) 0"

text \<open>Python's \<^verbatim>\<open>v or 0\<close> on a number.\<close>

definition or_zero :: "real \<Rightarrow> real" where
  "or_zero v = (if v = 0 then 0 else v)"

text \<open>
  \<^verbatim>\<open>SELECT category, COALESCE(SUM(amount), 0) AS total ... GROUP BY category ORDER BY total DESC\<close>.
  One group for each category among the selected rows, then the groups by descending
  total. SQL leaves the order of groups of equal total open; the model forms the groups
  in ascending category order and sorts them stably, and no theorem below depends on it.
\<close>

definition select_by_category :: "cond list \<Rightarrow> conn \<Rightarrow> (string \<times> real) list" where
  "select_by_category cs con =
     (let rs = select_where cs con
      in sort_key (\<lambda>g. - snd g)
           (map (\<lambda>k. (k, coalesce (sql_sum (map amount (filter (\<lambda>r. category r = k) rs))) 0))
                (sort (remdups (map category rs)))))"

text \<open>
  \<^verbatim>\<open>SELECT id, amount, type, category, date, note ... ORDER BY date DESC, id DESC\<close>:
  the ascending order on (date, id), reversed.
\<close>

definition select_details :: "cond list \<Rightarrow> conn \<Rightarrow> detail list" where
  "select_details cs con =
     rev (sort_key (\<lambda>r. (date r, rid r)) (map detail.truncate (select_where cs con)))"

record stats =
  total_income :: real
  total_expense :: real
  category_labels :: "string list"
  category_amounts :: "real list"
  records :: "detail list"

text \<open>\<^verbatim>\<open>get_stats\<close> returns the database it leaves behind together with its dictionary.\<close>

definition get_stats ::
  "store \<Rightarrow> string \<Rightarrow> string \<Rightarrow> string option \<Rightarrow> real option \<Rightarrow> real option \<Rightarrow> store \<times> stats" where
  "get_stats db start_date end_date cat min_amount max_amount =
     (let con = get_db_connection db;
          cs = conditions start_date end_date cat min_amount max_amount;
          income = or_zero (select_total (TypeEq ''income'' # cs) con);
          expense = or_zero (select_total (TypeEq ''expense'' # cs) con);
          groups = select_by_category (TypeEq ''expense'' # cs) con;
          recs = select_details cs con
      in (close con,
          \<lparr>total_income = income,
           total_expense = expense,
           category_labels = map fst groups,
           category_amounts = map snd groups,
           records = recs\<rparr>))"

subsection \<open>The INSERT statement\<close>

text \<open>
  AUTOINCREMENT hands out one more than the largest rowid that is or ever was in the
  table. The CHECK constraint on \<^verbatim>\<open>type\<close> raises IntegrityError. The row is appended to
  the connection's view; \<^verbatim>\<open>created_at\<close> takes its default, the current timestamp.
\<close>

definition next_rowid :: "store \<Rightarrow> int" where
  "next_rowid s = fold max (map rid (rows s)) (seq s) + 1"

definition execute_insert ::
  "string \<Rightarrow> conn \<Rightarrow> real \<times> string \<times> string \<times> string \<times> string \<Rightarrow> error + conn" where
  "execute_insert ts con v =
     (case v of (a, t, c, d, n) \<Rightarrow>
        if t = ''income'' \<or> t = ''expense'' then
          (let i = next_rowid (view con)
           in Inr (con\<lparr>view :=
                \<lparr>rows = rows (view con) @
                   [\<lparr>rid = i, amount = a, rtype = t, category = c, date = d,
                     rnote = Some n, created_at = ts\<rparr>],
                 seq = i\<rparr>\<rparr>))
        else Inl IntegrityError)"

subsection \<open>The route\<close>

record env =
  float_of :: "string \<Rightarrow> real option"
  today :: py_date
  now :: string

record request =
  meth :: string
  form :: "string \<rightharpoonup> string"

text \<open>\<^verbatim>\<open>request.form.get(k, d)\<close>\<close>

definition form_get :: "(string \<rightharpoonup> string) \<Rightarrow> string \<Rightarrow> string \<Rightarrow> string" where
  "form_get f k d = (case f k of None \<Rightarrow> d | Some v \<Rightarrow> v)"

text \<open>\<^verbatim>\<open>request.form.get(k) or d\<close>: the default for an absent and for an empty field.\<close>

definition form_get_or :: "(string \<rightharpoonup> string) \<Rightarrow> string \<Rightarrow> string \<Rightarrow> string" where
  "form_get_or f k d = (case f k of None \<Rightarrow> d | Some v \<Rightarrow> if v = [] then d else v)"

definition DEFAULT_BUDGET :: real where
  "DEFAULT_BUDGET = 30000"

text \<open>The seven messages the route flashes, by what they say, and their categories.\<close>

datatype flash_message =
    AmountNotNumber
  | TypeNotIncomeOrExpense
  | CategoryMissing
  | RecordAdded
  | MinAmountIgnored
  | MaxAmountIgnored
  | BudgetIgnored

datatype flash_category = danger | success | warning

type_synonym flash = "flash_message \<times> flash_category"

text \<open>The keyword arguments of \<^verbatim>\<open>render_template\<close>; an empty bound is shown as \<open>None\<close>.\<close>

record page =
  tpl_start_date :: string
  tpl_end_date :: string
  tpl_category_filter :: string
  tpl_min_amount :: "real option"
  tpl_max_amount :: "real option"
  tpl_budget :: real
  tpl_total_income :: real
  tpl_total_expense :: real
  tpl_balance :: real
  tpl_budget_diff :: real
  tpl_category_labels :: "string list"
  tpl_category_amounts :: "real list"
  tpl_records :: "detail list"
  tpl_DEFAULT_BUDGET :: real

datatype response = Redirect | Render page

type_synonym outcome = "store \<times> flash list \<times> response"

text \<open>The branch \<^verbatim>\<open>action == "add_record"\<close>.\<close>

definition add_record :: "env \<Rightarrow> store \<Rightarrow> (string \<rightharpoonup> string) \<Rightarrow> error + outcome" where
  "add_record e db f =
     (case float_of e (strip (form_get f ''amount'' '''')) of
        None \<Rightarrow> Inr (db, [(AmountNotNumber, danger)], Redirect)
      | Some a \<Rightarrow>
          (let record_type = f ''type'';
               cat = strip (form_get f ''category'' '''');
               date_str = form_get_or f ''date'' (isoformat (today e));
               note_str = strip (form_get f ''note'' '''')
           in case record_type of
                None \<Rightarrow> Inr (db, [(TypeNotIncomeOrExpense, danger)], Redirect)
              | Some t \<Rightarrow>
                  if \<not> (t = ''income'' \<or> t = ''expense'') then
                    Inr (db, [(TypeNotIncomeOrExpense, danger)], Redirect)
                  else if cat = [] then Inr (db, [(CategoryMissing, danger)], Redirect)
                  else
                    (case execute_insert (now e) (get_db_connection db)
                            (a, t, cat, date_str, note_str) of
                       Inl err \<Rightarrow> Inl err
                     | Inr con \<Rightarrow> Inr (close (commit con), [(RecordAdded, success)], Redirect))))"

text \<open>The local variables of \<^verbatim>\<open>index\<close> that the filter form sets.\<close>

record filter_vars =
  start_date :: string
  end_date :: string
  category_filter :: string
  min_amount :: "real option"
  max_amount :: "real option"
  budget :: real

definition default_vars :: "py_date \<Rightarrow> py_date \<Rightarrow> filter_vars" where
  "default_vars month_start month_end =
     \<lparr>start_date = isoformat month_start,
      end_date = isoformat month_end,
      category_filter = '''',
      min_amount = None,
      max_amount = None,
      budget = DEFAULT_BUDGET\<rparr>"

text \<open>
  One of the two amount bounds: an empty field leaves the bound absent, a field that
  \<^verbatim>\<open>float\<close> rejects leaves it absent and flashes the warning.
\<close>

definition parse_bound ::
  "env \<Rightarrow> flash_message \<Rightarrow> string \<Rightarrow> real option \<times> flash list" where
  "parse_bound e msg s =
     (if s = [] then (None, [])
      else case float_of e s of
             Some v \<Rightarrow> (Some v, [])
           | None \<Rightarrow> (None, [(msg, warning)]))"

definition parse_budget :: "env \<Rightarrow> real \<Rightarrow> string \<Rightarrow> real \<times> flash list" where
  "parse_budget e b s =
     (if s = [] then (b, [])
      else case float_of e s of
             Some v \<Rightarrow> (v, [])
           | None \<Rightarrow> (DEFAULT_BUDGET, [(BudgetIgnored, warning)]))"

text \<open>The branch \<^verbatim>\<open>action == "filter"\<close>, from the defaults \<open>v\<close>.\<close>

definition filter_form ::
  "env \<Rightarrow> filter_vars \<Rightarrow> (string \<rightharpoonup> string) \<Rightarrow> filter_vars \<times> flash list" where
  "filter_form e v f =
     (let (lo, fl1) = parse_bound e MinAmountIgnored (strip (form_get f ''min_amount'' ''''));
          (hi, fl2) = parse_bound e MaxAmountIgnored (strip (form_get f ''max_amount'' ''''));
          (b, fl3) = parse_budget e (budget v) (strip (form_get f ''budget'' ''''))
      in (\<lparr>start_date = form_get_or f ''start_date'' (start_date v),
           end_date = form_get_or f ''end_date'' (end_date v),
           category_filter = strip (form_get f ''category_filter'' ''''),
           min_amount = lo,
           max_amount = hi,
           budget = b\<rparr>,
          fl1 @ fl2 @ fl3))"

text \<open>The end of \<^verbatim>\<open>index\<close>: the statistics, the two differences, the template.\<close>

definition render_index :: "store \<Rightarrow> filter_vars \<Rightarrow> store \<times> page" where
  "render_index db v =
     (let (db', st) = get_stats db (start_date v) (end_date v) (Some (category_filter v))
                        (min_amount v) (max_amount v);
          balance = total_income st - total_expense st;
          budget_diff = budget v - total_expense st
      in (db',
          \<lparr>tpl_start_date = start_date v,
           tpl_end_date = end_date v,
           tpl_category_filter = category_filter v,
           tpl_min_amount = min_amount v,
           tpl_max_amount = max_amount v,
           tpl_budget = budget v,
           tpl_total_income = total_income st,
           tpl_total_expense = total_expense st,
           tpl_balance = balance,
           tpl_budget_diff = budget_diff,
           tpl_category_labels = category_labels st,
           tpl_category_amounts = category_amounts st,
           tpl_records = records st,
           tpl_DEFAULT_BUDGET = DEFAULT_BUDGET\<rparr>))"

definition index :: "env \<Rightarrow> store \<Rightarrow> request \<Rightarrow> error + outcome" where
  "index e db rq =
     (case get_current_month_range (today e) of
        Inl err \<Rightarrow> Inl err
      | Inr (month_start, month_end) \<Rightarrow>
          if meth rq = ''POST'' \<and> form rq ''action'' = Some ''add_record'' then
            add_record e db (form rq)
          else
            (let (v, fl) =
                   (if meth rq = ''POST'' \<and> form rq ''action'' = Some ''filter''
                    then filter_form e (default_vars month_start month_end) (form rq)
                    else (default_vars month_start month_end, []));
                 (db', p) = render_index db v
             in Inr (db', fl, Render p)))"

section \<open>What the properties are stated with\<close>

text \<open>
  The filter of a request as a predicate on one row, written from its description: both
  dates inclusive, the category compared after trimming and ignored when nothing is
  left of it, each amount bound inclusive and ignored when absent.
\<close>

definition matches ::
  "string \<Rightarrow> string \<Rightarrow> string option \<Rightarrow> real option \<Rightarrow> real option \<Rightarrow> 'a detail_scheme \<Rightarrow> bool" where
  "matches s e c lo hi r =
     (s \<le> date r \<and> date r \<le> e
      \<and> (case c of None \<Rightarrow> True | Some t \<Rightarrow> strip t = [] \<or> category r = strip t)
      \<and> (case lo of None \<Rightarrow> True | Some m \<Rightarrow> m \<le> amount r)
      \<and> (case hi of None \<Rightarrow> True | Some m \<Rightarrow> amount r \<le> m))"

text \<open>
  The order of a detail listing: a later date first, and on one date the larger id
  first. The strict form is the one rows with different ids satisfy.
\<close>

definition newest_first :: "'a detail_scheme \<Rightarrow> 'a detail_scheme \<Rightarrow> bool" where
  "newest_first a b = (date b < date a \<or> (date a = date b \<and> rid b \<le> rid a))"

definition strictly_newest_first :: "'a detail_scheme \<Rightarrow> 'a detail_scheme \<Rightarrow> bool" where
  "strictly_newest_first a b = (date b < date a \<or> (date a = date b \<and> rid b < rid a))"

text \<open>
  The total of one category among some rows.
\<close>

definition group_total :: "'a detail_scheme list \<Rightarrow> string \<Rightarrow> real" where
  "group_total rs k = sum_list (map amount (filter (\<lambda>r. category r = k) rs))"

text \<open>
  The dates \<^verbatim>\<open>date.today()\<close> can return, and the warning that belongs to each of the
  three numeric fields of the filter form.
\<close>

definition valid_date :: "py_date \<Rightarrow> bool" where
  "valid_date t =
     (1 \<le> year t \<and> year t \<le> 9999 \<and> 1 \<le> month t \<and> month t \<le> 12
      \<and> 1 \<le> day t \<and> day t \<le> days_in_month (year t) (month t))"

definition advisory :: "string \<Rightarrow> flash_message" where
  "advisory k =
     (if k = ''min_amount'' then MinAmountIgnored
      else if k = ''max_amount'' then MaxAmountIgnored
      else BudgetIgnored)"

subsection \<open>Example data\<close>

text \<open>
  Three small tables, a clock on 15 January 2024 with a table standing for \<^verbatim>\<open>float\<close> on
  the few strings the examples submit, and the example requests.
\<close>

definition entry :: "int \<Rightarrow> real \<Rightarrow> string \<Rightarrow> string \<Rightarrow> string \<Rightarrow> row" where
  "entry i a t c d =
     \<lparr>rid = i, amount = a, rtype = t, category = c, date = d, rnote = Some '''',
      created_at = d @ '' 12:00:00''\<rparr>"

definition january :: store where
  "january =
     \<lparr>rows = [entry 1 10 ''expense'' ''food'' ''2024-01-05'',
              entry 2 50 ''expense'' ''rent'' ''2024-01-02'',
              entry 3 200 ''income'' ''salary'' ''2024-01-03'',
              entry 4 7 ''expense'' ''food'' ''2024-02-01''],
      seq = 4\<rparr>"

definition three_entries :: store where
  "three_entries =
     \<lparr>rows = [entry 1 20 ''expense'' ''food'' ''2024-01-01'',
              entry 2 30 ''income'' ''gift'' ''2024-01-03'',
              entry 3 40 ''expense'' ''fuel'' ''2024-01-03''],
      seq = 3\<rparr>"

definition spent_500 :: store where
  "spent_500 =
     \<lparr>rows = [entry 1 450 ''expense'' ''rent'' ''2024-01-02'',
              entry 2 50 ''expense'' ''food'' ''2024-01-09'',
              entry 3 800 ''income'' ''salary'' ''2024-01-10''],
      seq = 3\<rparr>"

definition float_table :: "string \<Rightarrow> real option" where
  "float_table s =
     (if s = ''300'' then Some 300
      else if s = ''0'' then Some 0
      else if s = ''-5'' then Some (- 5)
      else if s = ''12.5'' then Some (25 / 2)
      else None)"

definition clock :: env where
  "clock = \<lparr>float_of = float_table, today = \<lparr>year = 2024, month = 1, day = 15\<rparr>,
            now = ''2024-01-15 09:30:00''\<rparr>"

definition post :: "(string \<times> string) list \<Rightarrow> request" where
  "post kvs = \<lparr>meth = ''POST'', form = map_of kvs\<rparr>"

definition bad_min :: request where
  "bad_min = post [(''action'', ''filter''), (''min_amount'', ''abc''), (''budget'', ''300'')]"

definition transfer :: request where
  "transfer = post [(''action'', ''add_record''), (''amount'', ''12.5''),
                    (''type'', ''transfer''), (''category'', ''misc'')]"


definition odd_date :: request where
  "odd_date = post [(''action'', ''add_record''), (''amount'', ''12.5''),
                    (''type'', ''income''), (''category'', ''tips''),
                    (''date'', ''next tuesday'')]"

definition budget_300 :: request where
  "budget_300 = post [(''action'', ''filter''), (''budget'', ''300'')]"

definition bad_budget :: request where
  "bad_budget = post [(''action'', ''filter''), (''category_filter'', '' food ''), (''budget'', ''lots'')]"

definition no_amount :: request where
  "no_amount = post [(''action'', ''add_record''), (''amount'', ''abc''),
                     (''type'', ''expense''), (''category'', ''misc'')]"

definition blank_category :: request where
  "blank_category = post [(''action'', ''add_record''), (''amount'', ''12.5''),
                          (''type'', ''expense''), (''category'', ''  '')]"

section \<open>The statements of get_stats\<close>

subsection \<open>Sums and conditions\<close>

lemma coalesce_sql_sum: "coalesce (sql_sum xs) 0 = sum_list xs"
  by (simp add: coalesce_def sql_sum_def)


lemma strip_Nil: "strip [] = []"
  by (simp add: strip_def)

lemma where_clause_conditions:
  "where_clause (conditions s e c lo hi) r = matches s e c lo hi r"
  by (auto simp: where_clause_def conditions_def matches_def strip_Nil split: option.splits)

lemma where_clause_TypeEq:
  "where_clause (TypeEq t # cs) r = (rtype r = t \<and> where_clause cs r)"
  by (simp add: where_clause_def)

lemma select_where_connection:
  "select_where cs (get_db_connection db) = filter (where_clause cs) (rows db)"
  by (simp add: select_where_def get_db_connection_def)



subsection \<open>get_stats only reads\<close>

text \<open>
  C9. \<^verbatim>\<open>get_stats\<close> opens a connection, issues four SELECT statements and closes the
  connection without a commit: whatever the database and the filter, the database it
  leaves behind is the one it found.
\<close>

theorem get_stats_read_only:
  "fst (get_stats db s e c lo hi) = db"
  by (simp add: get_stats_def Let_def close_def get_db_connection_def)

text \<open>
  Example: a filter with a category and a lower bound on the January table.
\<close>

theorem get_stats_read_only_witness:
  "fst (get_stats january ''2024-01-01'' ''2024-01-31'' (Some ''food'') (Some 5) None) = january"
  by (rule get_stats_read_only)

subsection \<open>The breakdown adds up to the total expense\<close>






subsection \<open>The detail rows carry the totals\<close>

lemma mset_select_details:
  "mset (select_details cs con) = mset (map detail.truncate (select_where cs con))"
  by (simp add: select_details_def)






subsection \<open>The detail rows are the matching rows, newest first\<close>

lemma sorted_wrt_select_details:
  "sorted_wrt newest_first (select_details cs con)"
proof -
  let ?k = "\<lambda>r::detail. (date r, rid r)"
  let ?xs = "map detail.truncate (select_where cs con)"
  have "sorted (map ?k (sort_key ?k ?xs))"
    by (rule sorted_sort_key)
  then have "sorted_wrt (\<lambda>a b. ?k a \<le> ?k b) (sort_key ?k ?xs)"
    by (simp add: sorted_map)
  then have "sorted_wrt (\<lambda>a b. ?k b \<le> ?k a) (rev (sort_key ?k ?xs))"
    by (simp add: sorted_wrt_rev)
  moreover have "\<And>a b::detail. ?k b \<le> ?k a \<Longrightarrow> newest_first a b"
    by (auto simp: newest_first_def)
  ultimately show ?thesis
    unfolding select_details_def by (rule sorted_wrt_mono_rel[rotated]) simp
qed

lemma sorted_wrt_strict:
  assumes "sorted_wrt newest_first xs" and "distinct (map rid xs)"
  shows "sorted_wrt strictly_newest_first xs"
  using assms
proof (induction xs)
  case Nil
  then show ?case by simp
next
  case (Cons a xs)
  have "strictly_newest_first a x" if "x \<in> set xs" for x
  proof -
    have "newest_first a x" using Cons.prems(1) that by simp
    moreover have "rid a \<notin> rid ` set xs" using Cons.prems(2) by simp
    then have "rid x \<noteq> rid a" using that by (metis imageI)
    ultimately show ?thesis
      by (auto simp: newest_first_def strictly_newest_first_def)
  qed
  with Cons show ?case by simp
qed

lemma distinct_rid_select_details:
  assumes "distinct (map rid (rows db))"
  shows "distinct (map rid (select_details cs (get_db_connection db)))"
proof -
  have "map rid (map detail.truncate (filter (where_clause cs) (rows db)))
      = map rid (filter (where_clause cs) (rows db))"
    by (simp add: detail.truncate_def)
  moreover have "distinct (map rid (filter (where_clause cs) (rows db)))"
    using assms by (rule distinct_map_filter)
  ultimately have "distinct (map rid (map detail.truncate (select_where cs (get_db_connection db))))"
    by (simp only: select_where_connection)
  moreover have "mset (map rid (select_details cs (get_db_connection db)))
      = mset (map rid (map detail.truncate (select_where cs (get_db_connection db))))"
    by (metis mset_map mset_select_details)
  ultimately show ?thesis
    by (metis mset_eq_imp_distinct_iff)
qed

text \<open>
  C3. For every database and every filter, the listing holds exactly the rows that match
  the filter (each as often as the table holds it, with the six selected columns), and
  it is ordered by descending date and, on one date, by descending id. Where the ids
  of the table are distinct, as a primary key makes them, no two rows tie.
\<close>

theorem records_match_filter_newest_first:
  "mset (records (snd (get_stats db s e c lo hi)))
     = mset (map detail.truncate (filter (matches s e c lo hi) (rows db)))
   \<and> sorted_wrt newest_first (records (snd (get_stats db s e c lo hi)))
   \<and> (distinct (map rid (rows db)) \<longrightarrow>
        sorted_wrt strictly_newest_first (records (snd (get_stats db s e c lo hi))))"
proof -
  let ?cs = "conditions s e c lo hi"
  let ?con = "get_db_connection db"
  have r: "records (snd (get_stats db s e c lo hi)) = select_details ?cs ?con"
    by (simp add: get_stats_def Let_def)
  have w: "where_clause ?cs = (matches s e c lo hi :: row \<Rightarrow> bool)"
    by (rule ext) (rule where_clause_conditions)
  have "mset (select_details ?cs ?con)
      = mset (map detail.truncate (filter (matches s e c lo hi) (rows db)))"
    by (simp only: mset_select_details select_where_connection w)
  moreover have "sorted_wrt newest_first (select_details ?cs ?con)"
    by (rule sorted_wrt_select_details)
  moreover have "distinct (map rid (rows db)) \<Longrightarrow>
      sorted_wrt strictly_newest_first (select_details ?cs ?con)"
    by (rule sorted_wrt_strict[OF sorted_wrt_select_details distinct_rid_select_details])
  ultimately show ?thesis
    unfolding r by blast
qed

text \<open>
  Example: rows dated 2024-01-01 (id 1), 2024-01-03 (id 2), 2024-01-03 (id 3) are listed
  in the order 3, 2, 1.
\<close>

theorem records_order_witness:
  "map rid (records (snd (get_stats three_entries ''2024-01-01'' ''2024-01-31'' None None None)))
     = [3, 2, 1]
   \<and> sorted_wrt strictly_newest_first
        (records (snd (get_stats three_entries ''2024-01-01'' ''2024-01-31'' None None None)))"
proof -
  have "map rid (records (snd (get_stats three_entries ''2024-01-01'' ''2024-01-31'' None None None)))
     = [3, 2, 1]"
    by code_simp
  moreover have "distinct (map rid (rows three_entries))"
    by (simp add: three_entries_def entry_def)
  ultimately show ?thesis
    using records_match_filter_newest_first[of three_entries "''2024-01-01''" "''2024-01-31''" None None None]
    by blast
qed

subsection \<open>The breakdown is grouped by category and sorted by total\<close>

lemma mset_select_by_category:
  "mset (select_by_category cs con)
     = mset (map (\<lambda>k. (k, group_total (select_where cs con) k))
                 (sort (remdups (map category (select_where cs con)))))"
  by (simp add: select_by_category_def Let_def coalesce_sql_sum group_total_def)

lemma fst_select_by_category:
  "mset (map fst (select_by_category cs con)) = mset (remdups (map category (select_where cs con)))"
proof -
  have "mset (map fst (select_by_category cs con))
      = image_mset fst (mset (select_by_category cs con))"
    by simp
  also have "\<dots> = mset (map fst (map (\<lambda>k. (k, group_total (select_where cs con) k))
                 (sort (remdups (map category (select_where cs con))))))"
    by (simp only: mset_select_by_category mset_map)
  also have "\<dots> = mset (remdups (map category (select_where cs con)))"
    by (simp add: comp_def)
  finally show ?thesis .
qed

lemma distinct_labels: "distinct (map fst (select_by_category cs con))"
  using fst_select_by_category[of cs con]
  by (metis distinct_remdups mset_eq_imp_distinct_iff)

lemma set_labels:
  "set (map fst (select_by_category cs con)) = category ` set (select_where cs con)"
  using fst_select_by_category[of cs con]
  by (metis mset_eq_setD set_map set_remdups)

lemma groups_totals:
  assumes "(k, t) \<in> set (select_by_category cs con)"
  shows "t = group_total (select_where cs con) k"
proof -
  have "(k, t) \<in> set (map (\<lambda>k. (k, group_total (select_where cs con) k))
                 (sort (remdups (map category (select_where cs con)))))"
    using assms mset_select_by_category[of cs con] by (metis mset_eq_setD)
  then show ?thesis by auto
qed

lemma sorted_totals:
  "sorted_wrt (\<lambda>x y. y \<le> x) (map snd (select_by_category cs con))"
proof -
  let ?gs = "select_by_category cs con"
  have "sorted (map (\<lambda>g. - snd g) ?gs)"
    unfolding select_by_category_def Let_def by (rule sorted_sort_key)
  then have "sorted_wrt (\<lambda>a b. - snd a \<le> - snd b) ?gs"
    by (simp add: sorted_map)
  then show ?thesis
    by (simp add: sorted_wrt_map)
qed

text \<open>
  C6. For every database and every filter, the breakdown has one entry for each category
  among the matching rows of type expense and no other, each paired with the sum of
  the amounts of those rows in that category, and the sums descend along the list.
  Nothing is said about the order of categories of equal sum.
\<close>

theorem breakdown_groups_sorted_desc:
  fixes db s e c lo hi
  defines "st \<equiv> snd (get_stats db s e c lo hi)"
  defines "ex \<equiv> filter (\<lambda>r. rtype r = ''expense'' \<and> matches s e c lo hi r) (rows db)"
  shows "length (category_labels st) = length (category_amounts st)
       \<and> distinct (category_labels st)
       \<and> set (category_labels st) = category ` set ex
       \<and> (\<forall>(k, t) \<in> set (zip (category_labels st) (category_amounts st)). t = group_total ex k)
       \<and> sorted_wrt (\<lambda>x y. y \<le> x) (category_amounts st)"
proof -
  let ?cs = "TypeEq ''expense'' # conditions s e c lo hi"
  let ?con = "get_db_connection db"
  have l: "category_labels st = map fst (select_by_category ?cs ?con)"
    and a: "category_amounts st = map snd (select_by_category ?cs ?con)"
    by (simp_all add: st_def get_stats_def Let_def)
  have ex: "select_where ?cs ?con = ex"
    unfolding select_where_connection ex_def
    by (rule filter_cong) (simp_all add: where_clause_TypeEq where_clause_conditions)
  have z: "zip (category_labels st) (category_amounts st) = select_by_category ?cs ?con"
    unfolding l a by (simp add: zip_map_fst_snd)
  have "length (category_labels st) = length (category_amounts st)"
    by (simp add: l a)
  moreover have "distinct (category_labels st)"
    unfolding l by (rule distinct_labels)
  moreover have "set (category_labels st) = category ` set ex"
    unfolding l set_labels ex ..
  moreover have "\<forall>(k, t) \<in> set (zip (category_labels st) (category_amounts st)). t = group_total ex k"
    unfolding z using groups_totals[of _ _ ?cs ?con] by (auto simp: ex)
  moreover have "sorted_wrt (\<lambda>x y. y \<le> x) (category_amounts st)"
    unfolding a by (rule sorted_totals)
  ultimately show ?thesis by blast
qed

text \<open>
  Example: 10 for food and 50 for rent in the window give rent 50, then food 10.
\<close>

theorem breakdown_groups_witness:
  "zip (category_labels (snd (get_stats january ''2024-01-01'' ''2024-01-31'' None None None)))
       (category_amounts (snd (get_stats january ''2024-01-01'' ''2024-01-31'' None None None)))
     = [(''rent'', 50), (''food'', 10)]
   \<and> distinct (category_labels (snd (get_stats january ''2024-01-01'' ''2024-01-31'' None None None)))
   \<and> sorted_wrt (\<lambda>x y. y \<le> x)
        (category_amounts (snd (get_stats january ''2024-01-01'' ''2024-01-31'' None None None)))"
proof -
  have "zip (category_labels (snd (get_stats january ''2024-01-01'' ''2024-01-31'' None None None)))
       (category_amounts (snd (get_stats january ''2024-01-01'' ''2024-01-31'' None None None)))
     = [(''rent'', 50), (''food'', 10)]"
    by code_simp
  then show ?thesis
    using breakdown_groups_sorted_desc[of january "''2024-01-01''" "''2024-01-31''" None None None]
    by blast
qed

section \<open>The route\<close>

subsection \<open>The default month\<close>

text \<open>
  \<^verbatim>\<open>index\<close> starts by computing the current month. For every date of the calendar
  this yields the first and the last day of its month, except in December 9999, where
  \<^verbatim>\<open>date(today.year + 1, 1, 1)\<close> raises ValueError. The properties of the route below
  are stated for a clock on which this first step returns.
\<close>

lemma days_in_month_pos: "Suc 0 \<le> days_in_month y m"
  by (simp add: days_in_month_def)

lemma month_range_ok:
  assumes "valid_date t" and "\<not> (year t = 9999 \<and> month t = 12)"
  shows "get_current_month_range t
           = Inr (t\<lparr>day := 1\<rparr>, t\<lparr>day := days_in_month (year t) (month t)\<rparr>)"
proof (cases "month t = 12")
  case True
  then have "year t + 1 \<le> 9999" using assms by (simp add: valid_date_def)
  then show ?thesis
    using True assms(1)
    by (simp add: get_current_month_range_def replace_day_def mk_date_def minus_one_day_def
        valid_date_def days_in_month_def)
next
  case False
  then have "month t + 1 \<le> 12" using assms(1) by (simp add: valid_date_def)
  then show ?thesis
    using False assms(1)
    by (simp add: get_current_month_range_def replace_day_def mk_date_def minus_one_day_def
        valid_date_def days_in_month_pos)
qed

lemma month_range_december_9999:
  assumes "year t = 9999" and "month t = 12"
  shows "get_current_month_range t = Inl ValueError"
  using assms
  by (simp add: get_current_month_range_def replace_day_def mk_date_def split: sum.splits)

lemma clock_range:
  "get_current_month_range (today clock)
     = Inr (\<lparr>year = 2024, month = 1, day = 1\<rparr>, \<lparr>year = 2024, month = 1, day = 31\<rparr>)"
  by (simp add: clock_def get_current_month_range_def replace_day_def mk_date_def
      minus_one_day_def days_in_month_def)

subsection \<open>The branches of index\<close>

lemma render_index_db: "fst (render_index db v) = db"
  by (simp add: render_index_def Let_def get_stats_def close_def get_db_connection_def split: prod.splits)

lemma index_add_record:
  assumes "get_current_month_range (today e) = Inr rng"
    and "meth rq = ''POST''" and "form rq ''action'' = Some ''add_record''"
  shows "index e db rq = add_record e db (form rq)"
  using assms by (simp add: index_def split: prod.splits)

lemma index_filter:
  assumes "get_current_month_range (today e) = Inr (ms, me)"
    and "meth rq = ''POST''" and "form rq ''action'' = Some ''filter''"
  shows "index e db rq =
           Inr (db, snd (filter_form e (default_vars ms me) (form rq)),
                Render (snd (render_index db (fst (filter_form e (default_vars ms me) (form rq))))))"
  using assms by (simp add: index_def Let_def case_prod_beta render_index_db)

lemma index_plain:
  assumes "get_current_month_range (today e) = Inr (ms, me)"
    and "\<not> (meth rq = ''POST'' \<and> form rq ''action'' = Some ''add_record'')"
    and "\<not> (meth rq = ''POST'' \<and> form rq ''action'' = Some ''filter'')"
  shows "index e db rq =
           Inr (db, [], Render (snd (render_index db (default_vars ms me))))"
  using assms by (auto simp: index_def Let_def case_prod_beta render_index_db)

lemma render_index_page:
  "tpl_budget_diff (snd (render_index db v))
     = tpl_budget (snd (render_index db v)) - tpl_total_expense (snd (render_index db v))"
  "tpl_balance (snd (render_index db v))
     = tpl_total_income (snd (render_index db v)) - tpl_total_expense (snd (render_index db v))"
  "tpl_budget (snd (render_index db v)) = budget v"
  "tpl_total_income (snd (render_index db v))
     = total_income (snd (get_stats db (start_date v) (end_date v) (Some (category_filter v))
         (min_amount v) (max_amount v)))"
  "tpl_total_expense (snd (render_index db v))
     = total_expense (snd (get_stats db (start_date v) (end_date v) (Some (category_filter v))
         (min_amount v) (max_amount v)))"
  "tpl_start_date (snd (render_index db v)) = start_date v"
  "tpl_end_date (snd (render_index db v)) = end_date v"
  "tpl_category_filter (snd (render_index db v)) = category_filter v"
  "tpl_min_amount (snd (render_index db v)) = min_amount v"
  "tpl_max_amount (snd (render_index db v)) = max_amount v"
  by (simp_all add: render_index_def case_prod_beta Let_def)

lemma index_renders:
  assumes "get_current_month_range (today e) = Inr rng"
    and "\<not> (meth rq = ''POST'' \<and> form rq ''action'' = Some ''add_record'')"
  shows "\<exists>fl v. index e db rq = Inr (db, fl, Render (snd (render_index db v)))"
proof -
  obtain ms me where rng: "get_current_month_range (today e) = Inr (ms, me)"
    using assms(1) by (cases rng) simp
  show ?thesis
  proof (cases "meth rq = ''POST'' \<and> form rq ''action'' = Some ''filter''")
    case True
    then show ?thesis using index_filter[OF rng, of rq db] by blast
  next
    case False
    then show ?thesis using index_plain[OF rng assms(2), of db] by blast
  qed
qed

lemmas demo_defs = post_def clock_def float_table_def form_get_def strip_def isspace_def

lemma clock_vars:
  "default_vars \<lparr>year = 2024, month = 1, day = 1\<rparr> \<lparr>year = 2024, month = 1, day = 31\<rparr>
     = \<lparr>start_date = ''2024-01-01'', end_date = ''2024-01-31'', category_filter = '''',
        min_amount = None, max_amount = None, budget = 30000\<rparr>"
  by (simp add: default_vars_def isoformat_def digit_char_def DEFAULT_BUDGET_def)

lemma filter_form_bad_min:
  "filter_form clock
     \<lparr>start_date = ''2024-01-01'', end_date = ''2024-01-31'', category_filter = '''',
      min_amount = None, max_amount = None, budget = 30000\<rparr> (form bad_min)
   = (\<lparr>start_date = ''2024-01-01'', end_date = ''2024-01-31'', category_filter = '''',
       min_amount = None, max_amount = None, budget = 300\<rparr>, [(MinAmountIgnored, warning)])"
  by (simp add: filter_form_def parse_bound_def parse_budget_def form_get_or_def bad_min_def
      demo_defs)

lemma filter_form_budget_300:
  "filter_form clock
     \<lparr>start_date = ''2024-01-01'', end_date = ''2024-01-31'', category_filter = '''',
      min_amount = None, max_amount = None, budget = 30000\<rparr> (form budget_300)
   = (\<lparr>start_date = ''2024-01-01'', end_date = ''2024-01-31'', category_filter = '''',
       min_amount = None, max_amount = None, budget = 300\<rparr>, [])"
  by (simp add: filter_form_def parse_bound_def parse_budget_def form_get_or_def budget_300_def
      demo_defs)

lemma filter_form_bad_budget:
  "filter_form clock
     \<lparr>start_date = ''2024-01-01'', end_date = ''2024-01-31'', category_filter = '''',
      min_amount = None, max_amount = None, budget = 30000\<rparr> (form bad_budget)
   = (\<lparr>start_date = ''2024-01-01'', end_date = ''2024-01-31'', category_filter = ''food'',
       min_amount = None, max_amount = None, budget = 30000\<rparr>, [(BudgetIgnored, warning)])"
  by (simp add: filter_form_def parse_bound_def parse_budget_def form_get_or_def bad_budget_def
      DEFAULT_BUDGET_def demo_defs)

subsection \<open>Budget difference and balance\<close>

text \<open>
  C7. Whenever the route renders the page (every request but the posting of a record),
  the budget difference it hands to the template is the budget minus the total
  expense, with no floor or ceiling, and the balance is the total income minus the
  total expense; the two totals are those of \<^verbatim>\<open>get_stats\<close> under the filter the page
  echoes. The request does not change the database.
\<close>

theorem budget_diff_and_balance:
  assumes "get_current_month_range (today e) = Inr rng"
    and "\<not> (meth rq = ''POST'' \<and> form rq ''action'' = Some ''add_record'')"
  shows "\<exists>fl p. index e db rq = Inr (db, fl, Render p)
           \<and> tpl_budget_diff p = tpl_budget p - tpl_total_expense p
           \<and> tpl_balance p = tpl_total_income p - tpl_total_expense p
           \<and> tpl_total_income p =
               total_income (snd (get_stats db (tpl_start_date p) (tpl_end_date p)
                 (Some (tpl_category_filter p)) (tpl_min_amount p) (tpl_max_amount p)))
           \<and> tpl_total_expense p =
               total_expense (snd (get_stats db (tpl_start_date p) (tpl_end_date p)
                 (Some (tpl_category_filter p)) (tpl_min_amount p) (tpl_max_amount p)))"
proof -
  obtain fl v where "index e db rq = Inr (db, fl, Render (snd (render_index db v)))"
    using index_renders[OF assms] by blast
  then show ?thesis
    using render_index_page[of db v] by (intro exI conjI) (assumption, simp_all)
qed

text \<open>
  Example: a total expense of 500 against a submitted budget of 300 gives -200.
\<close>

theorem budget_diff_witness:
  "\<exists>fl p. index clock spent_500 budget_300 = Inr (spent_500, fl, Render p)
       \<and> tpl_total_expense p = 500 \<and> tpl_budget p = 300 \<and> tpl_budget_diff p = - 200
       \<and> tpl_total_income p = 800 \<and> tpl_balance p = 300"
proof -
  have h: "meth budget_300 = ''POST''" "form budget_300 ''action'' = Some ''filter''"
    by (simp_all add: budget_300_def demo_defs)
  have h': "\<not> (meth budget_300 = ''POST'' \<and> form budget_300 ''action'' = Some ''add_record'')"
    by (simp add: budget_300_def demo_defs)
  obtain fl p where 1: "index clock spent_500 budget_300 = Inr (spent_500, fl, Render p)"
    and 2: "tpl_budget_diff p = tpl_budget p - tpl_total_expense p"
    and 3: "tpl_balance p = tpl_total_income p - tpl_total_expense p"
    using budget_diff_and_balance[OF clock_range h', of spent_500] by blast
  let ?v = "\<lparr>start_date = ''2024-01-01'', end_date = ''2024-01-31'', category_filter = '''',
       min_amount = None, max_amount = None, budget = 300\<rparr>"
  have p: "p = snd (render_index spent_500 ?v)"
    using 1 unfolding index_filter[OF clock_range h] clock_vars filter_form_budget_300
    by simp
  have "total_expense (snd (get_stats spent_500 ''2024-01-01'' ''2024-01-31'' (Some '''') None None)) = 500"
    by code_simp
  moreover have "total_income (snd (get_stats spent_500 ''2024-01-01'' ''2024-01-31'' (Some '''') None None)) = 800"
    by code_simp
  ultimately have "tpl_total_expense p = 500 \<and> tpl_budget p = 300 \<and> tpl_total_income p = 800"
    unfolding p by (simp add: render_index_page)
  then show ?thesis
    using 1 2 3 by simp
qed

subsection \<open>A malformed number in the filter form\<close>

lemma parse_bound_unparsed:
  assumes "float_of e s = None"
  shows "parse_bound e msg s = (None, if s = [] then [] else [(msg, warning)])"
  using assms by (simp add: parse_bound_def)

lemma parse_bound_flashes:
  "set (snd (parse_bound e msg s)) \<subseteq> {(msg, warning)}"
  by (simp add: parse_bound_def split: option.splits)

lemma parse_budget_flashes:
  "set (snd (parse_budget e b s)) \<subseteq> {(BudgetIgnored, warning)}"
  by (simp add: parse_budget_def split: option.splits)

lemma parse_budget_unparsed:
  assumes "float_of e s = None"
  shows "parse_budget e DEFAULT_BUDGET s
           = (DEFAULT_BUDGET, if s = [] then [] else [(BudgetIgnored, warning)])"
  using assms by (simp add: parse_budget_def)

lemma filter_other:
  assumes "set fl \<subseteq> {(m, c)}" and "m \<noteq> m'"
  shows "filter (\<lambda>x. fst x \<noteq> m') fl = fl"
  using assms by (induction fl) auto

lemma filter_form_flashes:
  "\<forall>x \<in> set (snd (filter_form e v f)). snd x = warning"
  using parse_bound_flashes[of e MinAmountIgnored] parse_bound_flashes[of e MaxAmountIgnored]
    parse_budget_flashes[of e]
  by (fastforce simp: filter_form_def case_prod_beta Let_def)

lemma filter_form_drop_min:
  assumes "f ''min_amount'' = Some s" and "float_of e (strip s) = None"
  shows "filter_form e v (f(''min_amount'' := None))
           = (fst (filter_form e v f),
              filter (\<lambda>x. fst x \<noteq> MinAmountIgnored) (snd (filter_form e v f)))"
    and "strip s \<noteq> [] \<Longrightarrow> (MinAmountIgnored, warning) \<in> set (snd (filter_form e v f))"
proof -
  let ?f' = "f(''min_amount'' := None)"
  have a: "strip (form_get ?f' ''min_amount'' '''') = []"
    by (simp add: form_get_def strip_Nil)
  have b: "strip (form_get f ''min_amount'' '''') = strip s"
    using assms by (simp add: form_get_def)
  have c: "form_get ?f' ''max_amount'' d = form_get f ''max_amount'' d"
          "form_get ?f' ''budget'' d = form_get f ''budget'' d"
          "form_get ?f' ''category_filter'' d = form_get f ''category_filter'' d"
          "form_get_or ?f' ''start_date'' d = form_get_or f ''start_date'' d"
          "form_get_or ?f' ''end_date'' d = form_get_or f ''end_date'' d" for d
    by (simp_all add: form_get_def form_get_or_def)
  have m: "filter (\<lambda>x. fst x \<noteq> MinAmountIgnored) (snd (parse_bound e MaxAmountIgnored t))
             = snd (parse_bound e MaxAmountIgnored t)" for t
    by (rule filter_other[OF parse_bound_flashes]) simp
  have g: "filter (\<lambda>x. fst x \<noteq> MinAmountIgnored) (snd (parse_budget e bb t))
             = snd (parse_budget e bb t)" for bb t
    by (rule filter_other[OF parse_budget_flashes]) simp
  show "filter_form e v ?f'
           = (fst (filter_form e v f),
              filter (\<lambda>x. fst x \<noteq> MinAmountIgnored) (snd (filter_form e v f)))"
    unfolding filter_form_def Let_def case_prod_beta a b c
    by (simp add: parse_bound_unparsed[OF assms(2)] m g) (simp add: parse_bound_def)
  show "strip s \<noteq> [] \<Longrightarrow> (MinAmountIgnored, warning) \<in> set (snd (filter_form e v f))"
    unfolding filter_form_def Let_def case_prod_beta b
    by (simp add: parse_bound_unparsed[OF assms(2)])
qed

lemma filter_form_drop_max:
  assumes "f ''max_amount'' = Some s" and "float_of e (strip s) = None"
  shows "filter_form e v (f(''max_amount'' := None))
           = (fst (filter_form e v f),
              filter (\<lambda>x. fst x \<noteq> MaxAmountIgnored) (snd (filter_form e v f)))"
    and "strip s \<noteq> [] \<Longrightarrow> (MaxAmountIgnored, warning) \<in> set (snd (filter_form e v f))"
proof -
  let ?f' = "f(''max_amount'' := None)"
  have a: "strip (form_get ?f' ''max_amount'' '''') = []"
    by (simp add: form_get_def strip_Nil)
  have b: "strip (form_get f ''max_amount'' '''') = strip s"
    using assms by (simp add: form_get_def)
  have c: "form_get ?f' ''min_amount'' d = form_get f ''min_amount'' d"
          "form_get ?f' ''budget'' d = form_get f ''budget'' d"
          "form_get ?f' ''category_filter'' d = form_get f ''category_filter'' d"
          "form_get_or ?f' ''start_date'' d = form_get_or f ''start_date'' d"
          "form_get_or ?f' ''end_date'' d = form_get_or f ''end_date'' d" for d
    by (simp_all add: form_get_def form_get_or_def)
  have m: "filter (\<lambda>x. fst x \<noteq> MaxAmountIgnored) (snd (parse_bound e MinAmountIgnored t))
             = snd (parse_bound e MinAmountIgnored t)" for t
    by (rule filter_other[OF parse_bound_flashes]) simp
  have g: "filter (\<lambda>x. fst x \<noteq> MaxAmountIgnored) (snd (parse_budget e bb t))
             = snd (parse_budget e bb t)" for bb t
    by (rule filter_other[OF parse_budget_flashes]) simp
  show "filter_form e v ?f'
           = (fst (filter_form e v f),
              filter (\<lambda>x. fst x \<noteq> MaxAmountIgnored) (snd (filter_form e v f)))"
    unfolding filter_form_def Let_def case_prod_beta a b c
    by (simp add: parse_bound_unparsed[OF assms(2)] m g) (simp add: parse_bound_def)
  show "strip s \<noteq> [] \<Longrightarrow> (MaxAmountIgnored, warning) \<in> set (snd (filter_form e v f))"
    unfolding filter_form_def Let_def case_prod_beta b
    by (simp add: parse_bound_unparsed[OF assms(2)])
qed

lemma filter_form_drop_budget:
  assumes "f ''budget'' = Some s" and "float_of e (strip s) = None"
    and "budget v = DEFAULT_BUDGET"
  shows "filter_form e v (f(''budget'' := None))
           = (fst (filter_form e v f),
              filter (\<lambda>x. fst x \<noteq> BudgetIgnored) (snd (filter_form e v f)))"
    and "strip s \<noteq> [] \<Longrightarrow> (BudgetIgnored, warning) \<in> set (snd (filter_form e v f))"
proof -
  let ?f' = "f(''budget'' := None)"
  have a: "strip (form_get ?f' ''budget'' '''') = []"
    by (simp add: form_get_def strip_Nil)
  have b: "strip (form_get f ''budget'' '''') = strip s"
    using assms by (simp add: form_get_def)
  have c: "form_get ?f' ''min_amount'' d = form_get f ''min_amount'' d"
          "form_get ?f' ''max_amount'' d = form_get f ''max_amount'' d"
          "form_get ?f' ''category_filter'' d = form_get f ''category_filter'' d"
          "form_get_or ?f' ''start_date'' d = form_get_or f ''start_date'' d"
          "form_get_or ?f' ''end_date'' d = form_get_or f ''end_date'' d" for d
    by (simp_all add: form_get_def form_get_or_def)
  have m: "filter (\<lambda>x. fst x \<noteq> BudgetIgnored) (snd (parse_bound e MinAmountIgnored t))
             = snd (parse_bound e MinAmountIgnored t)"
          "filter (\<lambda>x. fst x \<noteq> BudgetIgnored) (snd (parse_bound e MaxAmountIgnored t))
             = snd (parse_bound e MaxAmountIgnored t)" for t
    by (rule filter_other[OF parse_bound_flashes], simp)+
  show "filter_form e v ?f'
           = (fst (filter_form e v f),
              filter (\<lambda>x. fst x \<noteq> BudgetIgnored) (snd (filter_form e v f)))"
    unfolding filter_form_def Let_def case_prod_beta a b c assms(3)
    by (simp add: parse_budget_unparsed[OF assms(2)] m) (simp add: parse_budget_def)
  show "strip s \<noteq> [] \<Longrightarrow> (BudgetIgnored, warning) \<in> set (snd (filter_form e v f))"
    unfolding filter_form_def Let_def case_prod_beta b assms(3)
    by (simp add: parse_budget_unparsed[OF assms(2)])
qed

lemma filter_form_drop:
  assumes "k = ''min_amount'' \<or> k = ''max_amount'' \<or> k = ''budget''"
    and "f k = Some s" and "float_of e (strip s) = None"
    and "budget v = DEFAULT_BUDGET"
  shows "filter_form e v (f(k := None))
           = (fst (filter_form e v f),
              filter (\<lambda>x. fst x \<noteq> advisory k) (snd (filter_form e v f)))"
    and "strip s \<noteq> [] \<Longrightarrow> (advisory k, warning) \<in> set (snd (filter_form e v f))"
proof -
  have adv: "advisory ''min_amount'' = MinAmountIgnored"
    "advisory ''max_amount'' = MaxAmountIgnored"
    "advisory ''budget'' = BudgetIgnored"
    by (simp_all add: advisory_def)
  consider "k = ''min_amount''" | "k = ''max_amount''" | "k = ''budget''"
    using assms(1) by blast
  then have "filter_form e v (f(k := None))
           = (fst (filter_form e v f),
              filter (\<lambda>x. fst x \<noteq> advisory k) (snd (filter_form e v f)))
         \<and> (strip s \<noteq> [] \<longrightarrow> (advisory k, warning) \<in> set (snd (filter_form e v f)))"
  proof cases
    case 1
    show ?thesis
      unfolding 1 adv
      using filter_form_drop_min[where f = f and s = s, OF assms(2)[unfolded 1] assms(3)] by blast
  next
    case 2
    show ?thesis
      unfolding 2 adv
      using filter_form_drop_max[where f = f and s = s, OF assms(2)[unfolded 2] assms(3)] by blast
  next
    case 3
    show ?thesis
      unfolding 3 adv
      using filter_form_drop_budget[where f = f and s = s, OF assms(2)[unfolded 3] assms(3,4)] by blast
  qed
  then show "filter_form e v (f(k := None))
           = (fst (filter_form e v f),
              filter (\<lambda>x. fst x \<noteq> advisory k) (snd (filter_form e v f)))"
    and "strip s \<noteq> [] \<Longrightarrow> (advisory k, warning) \<in> set (snd (filter_form e v f))"
    by blast+
qed

text \<open>
  C4. Let a filter request carry, in \<^verbatim>\<open>min_amount\<close>, \<^verbatim>\<open>max_amount\<close> or \<^verbatim>\<open>budget\<close>, a
  text that \<^verbatim>\<open>float\<close> rejects once trimmed. The request is answered with the page, and
  the same request without that field is answered with the same page over the same
  database; the two differ only by the warning of that field. Every message flashed
  is a warning, and the warning of the field is among them unless the text is blank.
\<close>

theorem malformed_filter_input_dropped:
  assumes "get_current_month_range (today e) = Inr rng"
    and "meth rq = ''POST''" and "form rq ''action'' = Some ''filter''"
    and "k = ''min_amount'' \<or> k = ''max_amount'' \<or> k = ''budget''"
    and "form rq k = Some s" and "float_of e (strip s) = None"
  shows "\<exists>fl p. index e db rq = Inr (db, fl, Render p)
           \<and> index e db (rq\<lparr>form := (form rq)(k := None)\<rparr>)
               = Inr (db, filter (\<lambda>x. fst x \<noteq> advisory k) fl, Render p)
           \<and> (\<forall>x \<in> set fl. snd x = warning)
           \<and> (strip s \<noteq> [] \<longrightarrow> (advisory k, warning) \<in> set fl)"
proof -
  obtain ms me where rng: "get_current_month_range (today e) = Inr (ms, me)"
    using assms(1) by (cases rng) simp
  let ?v = "default_vars ms me"
  let ?rq' = "rq\<lparr>form := (form rq)(k := None)\<rparr>"
  have b: "budget ?v = DEFAULT_BUDGET" by (simp add: default_vars_def)
  have act: "form ?rq' ''action'' = Some ''filter''" "meth ?rq' = ''POST''"
    using assms(2,3,4) by auto
  have 1: "index e db rq = Inr (db, snd (filter_form e ?v (form rq)),
             Render (snd (render_index db (fst (filter_form e ?v (form rq))))))"
    by (rule index_filter[OF rng assms(2,3)])
  have "index e db ?rq' = Inr (db, snd (filter_form e ?v (form ?rq')),
             Render (snd (render_index db (fst (filter_form e ?v (form ?rq'))))))"
    by (rule index_filter[OF rng act(2) act(1)])
  then have 2: "index e db ?rq' =
      Inr (db, filter (\<lambda>x. fst x \<noteq> advisory k) (snd (filter_form e ?v (form rq))),
             Render (snd (render_index db (fst (filter_form e ?v (form rq))))))"
    by (simp add: filter_form_drop(1)[where f = "form rq" and k = k and s = s, OF assms(4,5,6) b])
  show ?thesis
    using 1 2 filter_form_flashes[of e ?v "form rq"] filter_form_drop(2)[where f = "form rq" and k = k and s = s, OF assms(4,5,6) b]
    by blast
qed

text \<open>
  Examples: \<^verbatim>\<open>min_amount = "abc"\<close> flashes one warning and renders the page of the
  request without \<^verbatim>\<open>min_amount\<close>; \<^verbatim>\<open>budget = "lots"\<close> flashes one warning and renders
  the page of the request without \<^verbatim>\<open>budget\<close>, under the default budget.
\<close>

theorem malformed_filter_witness:
  "(\<exists>p. index clock january bad_min = Inr (january, [(MinAmountIgnored, warning)], Render p)
       \<and> index clock january (bad_min\<lparr>form := (form bad_min)(''min_amount'' := None)\<rparr>)
           = Inr (january, [], Render p))
   \<and> (\<exists>p. index clock january bad_budget = Inr (january, [(BudgetIgnored, warning)], Render p)
       \<and> index clock january (bad_budget\<lparr>form := (form bad_budget)(''budget'' := None)\<rparr>)
           = Inr (january, [], Render p)
       \<and> tpl_budget p = 30000)"
proof
  have h: "meth bad_min = ''POST''" "form bad_min ''action'' = Some ''filter''"
    "''min_amount'' = ''min_amount'' \<or> ''min_amount'' = ''max_amount'' \<or> ''min_amount'' = ''budget''"
    "form bad_min ''min_amount'' = Some ''abc''" "float_of clock (strip ''abc'') = None"
    by (simp_all add: bad_min_def demo_defs)
  obtain fl p where 1: "index clock january bad_min = Inr (january, fl, Render p)"
    and 2: "index clock january (bad_min\<lparr>form := (form bad_min)(''min_amount'' := None)\<rparr>)
           = Inr (january, filter (\<lambda>x. fst x \<noteq> advisory ''min_amount'') fl, Render p)"
    using malformed_filter_input_dropped[OF clock_range h, of january] by blast
  have "fl = [(MinAmountIgnored, warning)]"
    using 1 unfolding index_filter[OF clock_range h(1,2)] clock_vars filter_form_bad_min
    by simp
  then show "\<exists>p. index clock january bad_min = Inr (january, [(MinAmountIgnored, warning)], Render p)
       \<and> index clock january (bad_min\<lparr>form := (form bad_min)(''min_amount'' := None)\<rparr>)
           = Inr (january, [], Render p)"
    using 1 2 by (simp add: advisory_def)
next
  have h: "meth bad_budget = ''POST''" "form bad_budget ''action'' = Some ''filter''"
    "''budget'' = ''min_amount'' \<or> ''budget'' = ''max_amount'' \<or> ''budget'' = ''budget''"
    "form bad_budget ''budget'' = Some ''lots''" "float_of clock (strip ''lots'') = None"
    by (simp_all add: bad_budget_def demo_defs)
  obtain fl p where 1: "index clock january bad_budget = Inr (january, fl, Render p)"
    and 2: "index clock january (bad_budget\<lparr>form := (form bad_budget)(''budget'' := None)\<rparr>)
           = Inr (january, filter (\<lambda>x. fst x \<noteq> advisory ''budget'') fl, Render p)"
    using malformed_filter_input_dropped[OF clock_range h, of january] by blast
  have "fl = [(BudgetIgnored, warning)] \<and> tpl_budget p = 30000"
    using 1 unfolding index_filter[OF clock_range h(1,2)] clock_vars filter_form_bad_budget
    by (auto simp: render_index_page)
  then show "\<exists>p. index clock january bad_budget = Inr (january, [(BudgetIgnored, warning)], Render p)
       \<and> index clock january (bad_budget\<lparr>form := (form bad_budget)(''budget'' := None)\<rparr>)
           = Inr (january, [], Render p)
       \<and> tpl_budget p = 30000"
    using 1 2 by (simp add: advisory_def)
qed

subsection \<open>Posting a record\<close>

lemma add_record_rejected:
  assumes "float_of e (strip (form_get f ''amount'' '''')) = None
         \<or> f ''type'' \<notin> {Some ''income'', Some ''expense''}
         \<or> strip (form_get f ''category'' '''') = []"
  shows "\<exists>m. add_record e db f = Inr (db, [(m, danger)], Redirect)"
  using assms
  by (auto simp: add_record_def Let_def split: option.splits)

lemma add_record_accepted:
  assumes "float_of e (strip (form_get f ''amount'' '''')) = Some a"
    and "f ''type'' = Some t" and "t = ''income'' \<or> t = ''expense''"
    and "strip (form_get f ''category'' '''') \<noteq> []"
  shows "add_record e db f =
           Inr (\<lparr>rows = rows db @
                   [\<lparr>rid = next_rowid db, amount = a, rtype = t,
                     category = strip (form_get f ''category'' ''''),
                     date = form_get_or f ''date'' (isoformat (today e)),
                     rnote = Some (strip (form_get f ''note'' '''')),
                     created_at = now e\<rparr>],
                 seq = next_rowid db\<rparr>,
                [(RecordAdded, success)], Redirect)"
  using assms
  by (auto simp: add_record_def Let_def execute_insert_def get_db_connection_def commit_def close_def)

lemma add_record_no_exception: "\<exists>out. add_record e db f = Inr out"
  by (auto simp: add_record_def Let_def execute_insert_def split: option.splits)

text \<open>
  C5. A posted record whose amount \<^verbatim>\<open>float\<close> rejects, whose type is absent or neither
  \<^verbatim>\<open>income\<close> nor \<^verbatim>\<open>expense\<close>, or whose category is blank, is answered by a redirect
  with one message of category \<^verbatim>\<open>danger\<close>, and the database is the one before.
\<close>

theorem invalid_write_rejected:
  assumes "get_current_month_range (today e) = Inr rng"
    and "meth rq = ''POST''" and "form rq ''action'' = Some ''add_record''"
    and "float_of e (strip (form_get (form rq) ''amount'' '''')) = None
         \<or> form rq ''type'' \<notin> {Some ''income'', Some ''expense''}
         \<or> strip (form_get (form rq) ''category'' '''') = []"
  shows "\<exists>m. index e db rq = Inr (db, [(m, danger)], Redirect)"
  unfolding index_add_record[OF assms(1,2,3)]
  by (rule add_record_rejected[OF assms(4)])

text \<open>
  Examples: the type \<^verbatim>\<open>transfer\<close>, the amount \<^verbatim>\<open>abc\<close>, a category of two spaces.
\<close>

theorem invalid_write_witness:
  "index clock january transfer = Inr (january, [(TypeNotIncomeOrExpense, danger)], Redirect)
   \<and> index clock january no_amount = Inr (january, [(AmountNotNumber, danger)], Redirect)
   \<and> index clock january blank_category = Inr (january, [(CategoryMissing, danger)], Redirect)"
proof (intro conjI)
  have h: "meth transfer = ''POST''" "form transfer ''action'' = Some ''add_record''"
    "float_of clock (strip (form_get (form transfer) ''amount'' '''')) = None
         \<or> form transfer ''type'' \<notin> {Some ''income'', Some ''expense''}
         \<or> strip (form_get (form transfer) ''category'' '''') = []"
    by (simp_all add: transfer_def demo_defs)
  obtain m where 1: "index clock january transfer = Inr (january, [(m, danger)], Redirect)"
    using invalid_write_rejected[OF clock_range h, of january] by blast
  have "add_record clock january (form transfer)
          = Inr (january, [(TypeNotIncomeOrExpense, danger)], Redirect)"
    by (simp add: add_record_def transfer_def demo_defs)
  then show "index clock january transfer
               = Inr (january, [(TypeNotIncomeOrExpense, danger)], Redirect)"
    using 1 unfolding index_add_record[OF clock_range h(1,2)] by simp
next
  have h: "meth no_amount = ''POST''" "form no_amount ''action'' = Some ''add_record''"
    "float_of clock (strip (form_get (form no_amount) ''amount'' '''')) = None
         \<or> form no_amount ''type'' \<notin> {Some ''income'', Some ''expense''}
         \<or> strip (form_get (form no_amount) ''category'' '''') = []"
    by (simp_all add: no_amount_def demo_defs)
  obtain m where 1: "index clock january no_amount = Inr (january, [(m, danger)], Redirect)"
    using invalid_write_rejected[OF clock_range h, of january] by blast
  have "add_record clock january (form no_amount)
          = Inr (january, [(AmountNotNumber, danger)], Redirect)"
    by (simp add: add_record_def no_amount_def demo_defs)
  then show "index clock january no_amount = Inr (january, [(AmountNotNumber, danger)], Redirect)"
    using 1 unfolding index_add_record[OF clock_range h(1,2)] by simp
next
  have h: "meth blank_category = ''POST''" "form blank_category ''action'' = Some ''add_record''"
    "float_of clock (strip (form_get (form blank_category) ''amount'' '''')) = None
         \<or> form blank_category ''type'' \<notin> {Some ''income'', Some ''expense''}
         \<or> strip (form_get (form blank_category) ''category'' '''') = []"
    by (simp_all add: blank_category_def demo_defs)
  obtain m where 1: "index clock january blank_category = Inr (january, [(m, danger)], Redirect)"
    using invalid_write_rejected[OF clock_range h, of january] by blast
  have "add_record clock january (form blank_category)
          = Inr (january, [(CategoryMissing, danger)], Redirect)"
    by (simp add: add_record_def blank_category_def demo_defs)
  then show "index clock january blank_category
               = Inr (january, [(CategoryMissing, danger)], Redirect)"
    using 1 unfolding index_add_record[OF clock_range h(1,2)] by simp
qed



text \<open>
  C10. For such a record the date is not examined: a date field that is not empty is
  stored as submitted, and an absent or empty one is replaced by today's date in ISO
  format.
\<close>

theorem date_stored_unvalidated:
  assumes "get_current_month_range (today e) = Inr rng"
    and "meth rq = ''POST''" and "form rq ''action'' = Some ''add_record''"
    and "float_of e (strip (form_get (form rq) ''amount'' '''')) = Some a"
    and "form rq ''type'' = Some t" and "t = ''income'' \<or> t = ''expense''"
    and "strip (form_get (form rq) ''category'' '''') \<noteq> []"
  shows "\<exists>r. index e db rq =
               Inr (\<lparr>rows = rows db @ [r], seq = rid r\<rparr>, [(RecordAdded, success)], Redirect)
           \<and> date r = (case form rq ''date'' of
                         None \<Rightarrow> isoformat (today e)
                       | Some d \<Rightarrow> if d = [] then isoformat (today e) else d)"
  unfolding index_add_record[OF assms(1,2,3)]
    add_record_accepted[where f = "form rq", OF assms(4,5,6,7)]
  by (simp add: form_get_or_def)

text \<open>
  Example: the date \<^verbatim>\<open>next tuesday\<close>.
\<close>

theorem date_stored_witness:
  "\<exists>r. index clock january odd_date
          = Inr (\<lparr>rows = rows january @ [r], seq = rid r\<rparr>, [(RecordAdded, success)], Redirect)
       \<and> date r = ''next tuesday''"
proof -
  have h: "meth odd_date = ''POST''" "form odd_date ''action'' = Some ''add_record''"
    "float_of clock (strip (form_get (form odd_date) ''amount'' '''')) = Some (25 / 2)"
    "form odd_date ''type'' = Some ''income''"
    "''income'' = ''income'' \<or> ''income'' = ''expense''"
    "strip (form_get (form odd_date) ''category'' '''') \<noteq> []"
    by (simp_all add: odd_date_def demo_defs)
  have d: "form odd_date ''date'' = Some ''next tuesday''"
    by (simp add: odd_date_def demo_defs)
  show ?thesis
    using date_stored_unvalidated[OF clock_range h, of january] unfolding d by simp
qed

subsection \<open>Ids stay distinct\<close>

text \<open>
  The id of an inserted row is larger than every id of the table, so a table with
  distinct ids keeps them distinct under every request.
\<close>

lemma fold_max_start:
  fixes a :: int
  shows "a \<le> fold max xs a"
proof (induction xs arbitrary: a)
  case Nil
  show ?case by simp
next
  case (Cons y ys)
  have "a \<le> max y a" by simp
  also have "\<dots> \<le> fold max ys (max y a)" by (rule Cons.IH)
  finally show ?case by simp
qed

lemma fold_max_ge:
  fixes a :: int
  assumes "x \<in> set xs"
  shows "x \<le> fold max xs a"
  using assms
proof (induction xs arbitrary: a)
  case Nil
  then show ?case by simp
next
  case (Cons y ys)
  show ?case
  proof (cases "x = y")
    case True
    have "y \<le> max y a" by simp
    also have "\<dots> \<le> fold max ys (max y a)" by (rule fold_max_start)
    finally show ?thesis using True by simp
  next
    case False
    then have "x \<in> set ys" using Cons.prems by simp
    then show ?thesis using Cons.IH by simp
  qed
qed

lemma next_rowid_fresh:
  assumes "r \<in> set (rows db)"
  shows "rid r < next_rowid db"
proof -
  have "rid r \<in> set (map rid (rows db))" using assms by simp
  then have "rid r \<le> fold max (map rid (rows db)) (seq db)" by (rule fold_max_ge)
  then show ?thesis by (simp add: next_rowid_def)
qed

lemma add_record_store:
  assumes "add_record e db f = Inr (db', fl, resp)"
  shows "db' = db \<or> (\<exists>r. db' = \<lparr>rows = rows db @ [r], seq = rid r\<rparr> \<and> rid r = next_rowid db)"
  using assms
  by (auto simp: add_record_def Let_def execute_insert_def get_db_connection_def commit_def
      close_def split: option.splits if_splits)

lemma index_store:
  assumes "index e db rq = Inr (db', fl, resp)"
  shows "db' = db \<or> (\<exists>r. db' = \<lparr>rows = rows db @ [r], seq = rid r\<rparr> \<and> rid r = next_rowid db)"
proof (cases "meth rq = ''POST'' \<and> form rq ''action'' = Some ''add_record''")
  case True
  then have "add_record e db (form rq) = Inr (db', fl, resp)"
    using assms by (simp add: index_def split: sum.splits prod.splits)
  then show ?thesis by (rule add_record_store)
next
  case False
  then have "db' = db"
    using assms
    by (auto simp: index_def Let_def case_prod_beta render_index_db split: sum.splits if_splits)
  then show ?thesis ..
qed

lemma index_keeps_ids_distinct:
  assumes "distinct (map rid (rows db))" and "index e db rq = Inr (db', fl, resp)"
  shows "distinct (map rid (rows db'))"
proof -
  from index_store[OF assms(2)] show ?thesis
  proof
    assume "db' = db"
    then show ?thesis using assms(1) by simp
  next
    assume "\<exists>r. db' = \<lparr>rows = rows db @ [r], seq = rid r\<rparr> \<and> rid r = next_rowid db"
    then obtain r where r: "db' = \<lparr>rows = rows db @ [r], seq = rid r\<rparr>" "rid r = next_rowid db"
      by blast
    have "rid r \<notin> rid ` set (rows db)"
      using next_rowid_fresh[of _ db] r(2) by force
    then show ?thesis using assms(1) r(1) by simp
  qed
qed

end
